theory Spec2Isabelle
  imports Main "HOL-Library.Sublist"
begin

section \<open>Text and stylesheets\<close>

text \<open>
  The repository (WATIS-devs/CodeToImage) consists of two Python modules:
  \<^verbatim>\<open>highlight.py\<close>, a command-line converter, and \<^verbatim>\<open>gui_highlighter.py\<close>, a
  PyQt window doing the same conversion. Python text is modelled as \<^typ>\<open>string\<close>,
  read as the UTF-8 bytes of the text: concatenation, splitting at \<^verbatim>\<open>/\<close> and
  \<^verbatim>\<open>.\<close> and suffix tests commute with that encoding, and these are the only
  string operations of the two modules. Names of \<^verbatim>\<open>gui_highlighter.py\<close> that clash
  with a name of \<^verbatim>\<open>highlight.py\<close> carry the prefix \<open>gui_\<close>.
\<close>

subsection \<open>\<^verbatim>\<open>MONOKAI_CSS\<close> of highlight.py (lines 16-139) and of gui_highlighter.py (lines 22-145)\<close>

definition MONOKAI_CSS :: string where
  \<open>MONOKAI_CSS = ''
/* Main style */
body {
    font-family: 'Fira Code', 'Consolas', 'Monaco', 'Courier New', monospace;
    background-color: #272822;
    color: #f8f8f2;
    margin: 0;
    padding: 20px;
    line-height: 1.6;
}

/* Code container */
.code-container {
    background-color: #272822;
    border-radius: 8px;
    box-shadow: 0 4px 6px rgba(0, 0, 0, 0.3);
    overflow: hidden;
    max-width: 100%;
    margin: 0 auto;
}

/* File header */
.file-header {
    background-color: #1e1f1c;
    padding: 10px 15px;
    border-bottom: 1px solid #3e3d32;
    color: #75715e;
    font-size: 14px;
    font-weight: bold;
}

/* Scroll */
.code-wrapper {
    overflow-x: auto;
    padding: 20px;
}

/* Table with line numbers */
.highlight table {
    border-spacing: 0;
    border-collapse: separate;
    width: 100%;
}

.highlight pre {
    margin: 0;
    padding: 0;
    background: none;
    font-size: 14px;
}

/* Line numbers */
.highlight td.linenos {
    padding-right: 15px;
    color: #90908a;
    text-align: right;
    user-select: none;
    border-right: 1px solid #3e3d32;
}

.highlight td.code {
    padding-left: 15px;
}

/* Code highlighting styles (Monokai) */
.highlight .c { color: #75715e } /* Comment */
.highlight .err { color: #960050; background-color: #1e0010 } /* Error */
.highlight .k { color: #66d9ef } /* Keyword */
.highlight .l { color: #ae81ff } /* Literal */
.highlight .n { color: #f8f8f2 } /* Name */
.highlight .o { color: #f92672 } /* Operator */
.highlight .p { color: #f8f8f2 } /* Punctuation */
.highlight .cm { color: #75715e } /* Comment.Multiline */
.highlight .cp { color: #75715e } /* Comment.Preproc */
.highlight .c1 { color: #75715e } /* Comment.Single */
.highlight .cs { color: #75715e } /* Comment.Special */
.highlight .ge { font-style: italic } /* Generic.Emph */
.highlight .gs { font-weight: bold } /* Generic.Strong */
.highlight .kc { color: #66d9ef } /* Keyword.Constant */
.highlight .kd { color: #66d9ef } /* Keyword.Declaration */
.highlight .kn { color: #f92672 } /* Keyword.Namespace */
.highlight .kp { color: #66d9ef } /* Keyword.Pseudo */
.highlight .kr { color: #66d9ef } /* Keyword.Reserved */
.highlight .kt { color: #66d9ef } /* Keyword.Type */
.highlight .ld { color: #e6db74 } /* Literal.Date */
.highlight .m { color: #ae81ff } /* Literal.Number */
.highlight .s { color: #e6db74 } /* Literal.String */
.highlight .na { color: #a6e22e } /* Name.Attribute */
.highlight .nb { color: #f8f8f2 } /* Name.Builtin */
.highlight .nc { color: #a6e22e } /* Name.Class */
.highlight .no { color: #66d9ef } /* Name.Constant */
.highlight .nd { color: #a6e22e } /* Name.Decorator */
.highlight .ni { color: #f8f8f2 } /* Name.Entity */
.highlight .ne { color: #a6e22e } /* Name.Exception */
.highlight .nf { color: #a6e22e } /* Name.Function */
.highlight .nl { color: #f8f8f2 } /* Name.Label */
.highlight .nn { color: #f8f8f2 } /* Name.Namespace */
.highlight .nx { color: #a6e22e } /* Name.Other */
.highlight .py { color: #f8f8f2 } /* Name.Property */
.highlight .nt { color: #f92672 } /* Name.Tag */
.highlight .nv { color: #f8f8f2 } /* Name.Variable */
.highlight .ow { color: #f92672 } /* Operator.Word */
.highlight .w { color: #f8f8f2 } /* Text.Whitespace */
.highlight .mf { color: #ae81ff } /* Literal.Number.Float */
.highlight .mh { color: #ae81ff } /* Literal.Number.Hex */
.highlight .mi { color: #ae81ff } /* Literal.Number.Integer */
.highlight .mo { color: #ae81ff } /* Literal.Number.Oct */
.highlight .sb { color: #e6db74 } /* Literal.String.Backtick */
.highlight .sc { color: #e6db74 } /* Literal.String.Char */
.highlight .sd { color: #e6db74 } /* Literal.String.Doc */
.highlight .s2 { color: #e6db74 } /* Literal.String.Double */
.highlight .se { color: #ae81ff } /* Literal.String.Escape */
.highlight .sh { color: #e6db74 } /* Literal.String.Heredoc */
.highlight .si { color: #e6db74 } /* Literal.String.Interpol */
.highlight .sx { color: #e6db74 } /* Literal.String.Other */
.highlight .sr { color: #e6db74 } /* Literal.String.Regex */
.highlight .s1 { color: #e6db74 } /* Literal.String.Single */
.highlight .ss { color: #e6db74 } /* Literal.String.Symbol */
.highlight .bp { color: #f8f8f2 } /* Name.Builtin.Pseudo */
.highlight .vc { color: #f8f8f2 } /* Name.Variable.Class */
.highlight .vg { color: #f8f8f2 } /* Name.Variable.Global */
.highlight .vi { color: #f8f8f2 } /* Name.Variable.Instance */
.highlight .il { color: #ae81ff } /* Literal.Number.Integer.Long */
''\<close>

definition gui_MONOKAI_CSS :: string where
  \<open>gui_MONOKAI_CSS = ''
/* Main style */
body {
    font-family: 'Fira Code', 'Consolas', 'Monaco', 'Courier New', monospace;
    background-color: #272822;
    color: #f8f8f2;
    margin: 0;
    padding: 20px;
    line-height: 1.6;
}

/* Code container */
.code-container {
    background-color: #272822;
    border-radius: 8px;
    box-shadow: 0 4px 6px rgba(0, 0, 0, 0.3);
    overflow: hidden;
    max-width: 100%;
    margin: 0 auto;
}

/* File header */
.file-header {
    background-color: #1e1f1c;
    padding: 10px 15px;
    border-bottom: 1px solid #3e3d32;
    color: #75715e;
    font-size: 14px;
    font-weight: bold;
}

/* Scroll */
.code-wrapper {
    overflow-x: auto;
    padding: 20px;
}

/* Table with line numbers */
.highlight table {
    border-spacing: 0;
    border-collapse: separate;
    width: 100%;
}

.highlight pre {
    margin: 0;
    padding: 0;
    background: none;
    font-size: 14px;
}

/* Line numbers */
.highlight td.linenos {
    padding-right: 15px;
    color: #90908a;
    text-align: right;
    user-select: none;
    border-right: 1px solid #3e3d32;
}

.highlight td.code {
    padding-left: 15px;
}

/* Code highlighting styles (Monokai) */
.highlight .c { color: #75715e }
.highlight .err { color: #960050; background-color: #1e0010 }
.highlight .k { color: #66d9ef }
.highlight .l { color: #ae81ff }
.highlight .n { color: #f8f8f2 }
.highlight .o { color: #f92672 }
.highlight .p { color: #f8f8f2 }
.highlight .cm { color: #75715e }
.highlight .cp { color: #75715e }
.highlight .c1 { color: #75715e }
.highlight .cs { color: #75715e }
.highlight .ge { font-style: italic }
.highlight .gs { font-weight: bold }
.highlight .kc { color: #66d9ef }
.highlight .kd { color: #66d9ef }
.highlight .kn { color: #f92672 }
.highlight .kp { color: #66d9ef }
.highlight .kr { color: #66d9ef }
.highlight .kt { color: #66d9ef }
.highlight .ld { color: #e6db74 }
.highlight .m { color: #ae81ff }
.highlight .s { color: #e6db74 }
.highlight .na { color: #a6e22e }
.highlight .nb { color: #f8f8f2 }
.highlight .nc { color: #a6e22e }
.highlight .no { color: #66d9ef }
.highlight .nd { color: #a6e22e }
.highlight .ni { color: #f8f8f2 }
.highlight .ne { color: #a6e22e }
.highlight .nf { color: #a6e22e }
.highlight .nl { color: #f8f8f2 }
.highlight .nn { color: #f8f8f2 }
.highlight .nx { color: #a6e22e }
.highlight .py { color: #f8f8f2 }
.highlight .nt { color: #f92672 }
.highlight .nv { color: #f8f8f2 }
.highlight .ow { color: #f92672 }
.highlight .w { color: #f8f8f2 }
.highlight .mf { color: #ae81ff }
.highlight .mh { color: #ae81ff }
.highlight .mi { color: #ae81ff }
.highlight .mo { color: #ae81ff }
.highlight .sb { color: #e6db74 }
.highlight .sc { color: #e6db74 }
.highlight .sd { color: #e6db74 }
.highlight .s2 { color: #e6db74 }
.highlight .se { color: #ae81ff }
.highlight .sh { color: #e6db74 }
.highlight .si { color: #e6db74 }
.highlight .sx { color: #e6db74 }
.highlight .sr { color: #e6db74 }
.highlight .s1 { color: #e6db74 }
.highlight .ss { color: #e6db74 }
.highlight .bp { color: #f8f8f2 }
.highlight .vc { color: #f8f8f2 }
.highlight .vg { color: #f8f8f2 }
.highlight .vi { color: #f8f8f2 }
.highlight .il { color: #ae81ff }
''\<close>

subsection \<open>The document template (highlight.py lines 173-192, gui_highlighter.py lines 418-437)\<close>

text \<open>
  \<^verbatim>\<open>str.rfind\<close> of a single character: the index of its last occurrence, or \<open>-1\<close>.
\<close>

definition rfind :: "string \<Rightarrow> char \<Rightarrow> int" where
  "rfind s c =
     (if c \<in> set s then int (length s) - 1 - int (length (takeWhile (\<lambda>x. x \<noteq> c) (rev s)))
      else - 1)"

text \<open>
  \<^verbatim>\<open>os.path.basename\<close> (posixpath): \<^verbatim>\<open>i = p.rfind('/') + 1; return p[i:]\<close>.
\<close>

definition basename :: "string \<Rightarrow> string" where
  "basename p = drop (nat (rfind p (CHR ''/'') + 1)) p"

text \<open>
  The f-string \<^verbatim>\<open>html_template\<close> of \<^verbatim>\<open>generate_html\<close>, as a function of the two
  local variables it interpolates besides the module constant \<^verbatim>\<open>MONOKAI_CSS\<close>.
\<close>

definition html_template :: "string \<Rightarrow> string \<Rightarrow> string" where
  \<open>html_template input_file highlighted_code = ''<!DOCTYPE html>
<html lang="en">
<head>
    <meta charset="UTF-8">
    <meta name="viewport" content="width=device-width, initial-scale=1.0">
    <title>'' @ basename input_file @ '' - Python Code</title>
    <link href="https://fonts.googleapis.com/css2?family=Fira+Code:wght@400;500&display=swap" rel="stylesheet">
    <style>
        '' @ MONOKAI_CSS @ ''
    </style>
</head>
<body>
    <div class="code-container">
        <div class="file-header">'' @ basename input_file @ ''</div>
        <div class="code-wrapper">
            '' @ highlighted_code @ ''
        </div>
    </div>
</body>
</html>''\<close>

definition gui_html_template :: "string \<Rightarrow> string \<Rightarrow> string" where
  \<open>gui_html_template input_file highlighted_code = ''<!DOCTYPE html>
<html lang="en">
<head>
    <meta charset="UTF-8">
    <meta name="viewport" content="width=device-width, initial-scale=1.0">
    <title>'' @ basename input_file @ '' - Python Code</title>
    <link href="https://fonts.googleapis.com/css2?family=Fira+Code:wght@400;500&display=swap" rel="stylesheet">
    <style>
        '' @ gui_MONOKAI_CSS @ ''
    </style>
</head>
<body>
    <div class="code-container">
        <div class="file-header">'' @ basename input_file @ ''</div>
        <div class="code-wrapper">
            '' @ highlighted_code @ ''
        </div>
    </div>
</body>
</html>''\<close>

section \<open>Paths\<close>

text \<open>
  \<^verbatim>\<open>pathlib.Path\<close> in its POSIX flavour. A path object is its root (empty,
  \<^verbatim>\<open>/\<close> or \<^verbatim>\<open>//\<close>) and the list of its components (\<^verbatim>\<open>_tail\<close>); there is no
  drive. The definitions follow \<^verbatim>\<open>posixpath.splitroot\<close> and
  \<^verbatim>\<open>PurePath._parse_path\<close>, \<^verbatim>\<open>__str__\<close>, \<^verbatim>\<open>name\<close>, \<^verbatim>\<open>suffix\<close>, \<^verbatim>\<open>stem\<close>,
  \<^verbatim>\<open>parent\<close> and \<^verbatim>\<open>with_suffix\<close> of CPython 3.12.
\<close>

record path =
  root :: string
  tail :: "string list"

text \<open>\<^verbatim>\<open>str.split(sep)\<close> for a one-character separator, and \<^verbatim>\<open>sep.join(xs)\<close>.\<close>

fun str_split :: "char \<Rightarrow> string \<Rightarrow> string list" where
  "str_split sep [] = [[]]"
| "str_split sep (x # xs) =
     (if x = sep then [] # str_split sep xs
      else (case str_split sep xs of
              [] \<Rightarrow> [[x]]
            | w # ws \<Rightarrow> (x # w) # ws))"

fun str_join :: "string \<Rightarrow> string list \<Rightarrow> string" where
  "str_join sep [] = []"
| "str_join sep [x] = x"
| "str_join sep (x # y # ys) = x @ sep @ str_join sep (y # ys)"

definition splitroot :: "string \<Rightarrow> string \<times> string" where
  "splitroot p =
     (if take 1 p \<noteq> ''/'' then ([], p)
      else if take 1 (drop 1 p) \<noteq> ''/'' \<or> take 1 (drop 2 p) = ''/'' then (''/'', drop 1 p)
      else (''//'', drop 2 p))"

definition Path :: "string \<Rightarrow> path" where
  "Path p =
     (if p = [] then \<lparr>root = [], tail = []\<rparr>
      else (case splitroot p of
              (r, rel) \<Rightarrow>
                \<lparr>root = r, tail = filter (\<lambda>x. x \<noteq> [] \<and> x \<noteq> ''.'') (str_split (CHR ''/'') rel)\<rparr>))"

definition str_path :: "path \<Rightarrow> string" where
  "str_path P =
     (let s = (if root P \<noteq> [] then root P @ str_join ''/'' (tail P)
               else str_join ''/'' (tail P))
      in if s = [] then ''.'' else s)"

definition path_name :: "path \<Rightarrow> string" where
  "path_name P = (if tail P = [] then [] else last (tail P))"

definition path_suffix :: "path \<Rightarrow> string" where
  "path_suffix P =
     (let name = path_name P; i = rfind name (CHR ''.'')
      in if 0 < i \<and> i < int (length name) - 1 then drop (nat i) name else [])"

definition path_stem :: "path \<Rightarrow> string" where
  "path_stem P =
     (let name = path_name P; i = rfind name (CHR ''.'')
      in if 0 < i \<and> i < int (length name) - 1 then take (nat i) name else name)"

definition path_parent :: "path \<Rightarrow> path" where
  "path_parent P = P\<lparr>tail := butlast (tail P)\<rparr>"

section \<open>Exceptions, the runtime and the file system\<close>

text \<open>
  An exception is its class and the text \<^verbatim>\<open>str(e)\<close>. The two modules tell
  \<^verbatim>\<open>FileNotFoundError\<close> from every other \<^verbatim>\<open>Exception\<close> and nothing else.
\<close>

datatype exn =
    FileNotFoundError string
  | NotADirectoryError string
  | IsADirectoryError string
  | PermissionError string
  | OSError string
  | UnicodeDecodeError string
  | UnicodeEncodeError string
  | ValueError string
  | Exception string

fun str_exn :: "exn \<Rightarrow> string" where
  "str_exn (FileNotFoundError m) = m"
| "str_exn (NotADirectoryError m) = m"
| "str_exn (IsADirectoryError m) = m"
| "str_exn (PermissionError m) = m"
| "str_exn (OSError m) = m"
| "str_exn (UnicodeDecodeError m) = m"
| "str_exn (UnicodeEncodeError m) = m"
| "str_exn (ValueError m) = m"
| "str_exn (Exception m) = m"

fun is_FileNotFoundError :: "exn \<Rightarrow> bool" where
  "is_FileNotFoundError (FileNotFoundError m) = True"
| "is_FileNotFoundError e = False"

text \<open>
  What the two modules call and do not define is a parameter of the model:
  \<^item> \<open>highlight\<close> is \<^verbatim>\<open>pygments.highlight(code, PythonLexer(), HtmlFormatter(style='monokai',
    linenos=True, cssclass='highlight', hl_lines=[]))\<close>, which returns the fragment or raises;
  \<^item> \<open>decode_utf8\<close> is the decoding done by \<^verbatim>\<open>f.read()\<close> on a file opened with
    \<^verbatim>\<open>encoding='utf-8'\<close>: the text of the bytes, or \<^verbatim>\<open>UnicodeDecodeError\<close>;
  \<^item> \<open>repr\<close> is Python's \<^verbatim>\<open>repr\<close> of a string, used in the messages of the
    interpreter's own exceptions;
  \<^item> \<open>read_error\<close> gives the exception, if any, that opening an existing regular file
    for reading raises for a reason outside the model (permissions);
  \<^item> \<open>write_error\<close> gives what goes wrong, if anything, when a path that is not a
    directory is written: either \<^verbatim>\<open>open(p, 'w')\<close> raises and nothing has changed
    (permissions, a missing parent directory, a read-only medium), or the file has been
    created or truncated and \<^verbatim>\<open>f.write\<close> or the closing of the file raises, and the file
    is left with some bytes: none when the text cannot be encoded
    (\<^verbatim>\<open>UnicodeEncodeError\<close>, as for a file name that is not UTF-8), a part of the text
    when the disk is full;
  \<^item> \<open>name_max\<close> and \<open>path_max\<close> are the limits of the operating system on the length of
    a component and of a path (255 and 4096 on Linux).
\<close>

datatype failure = At_open exn | At_write exn string

record runtime =
  highlight :: "string \<Rightarrow> exn + string"
  decode_utf8 :: "string \<Rightarrow> exn + string"
  repr :: "string \<Rightarrow> string"
  read_error :: "string \<Rightarrow> exn option"
  write_error :: "string \<Rightarrow> failure option"
  name_max :: nat
  path_max :: nat

text \<open>
  The file system maps a path, as the program spells it, to what is there: a directory or
  a regular file with its bytes. Nothing exists at a path it does not list, and
  \<^verbatim>\<open>os.path.exists\<close> answers \<^verbatim>\<open>False\<close> there, also where \<^verbatim>\<open>os.stat\<close> raises (a NUL, an
  over-long name, a path below a regular file).
\<close>

datatype node = Directory | RegularFile string

type_synonym filesystem = "string \<rightharpoonup> node"

definition os_path_exists :: "filesystem \<Rightarrow> string \<Rightarrow> bool" where
  "os_path_exists fs p = (fs p \<noteq> None)"

text \<open>
  Where nothing exists, \<^verbatim>\<open>open\<close> does not always raise \<^verbatim>\<open>FileNotFoundError\<close>. A path
  with a NUL character is refused by Python (\<^verbatim>\<open>ValueError\<close>), one of \<open>path_max\<close>
  characters or more by the system (\<^verbatim>\<open>OSError\<close>, \<^verbatim>\<open>ENAMETOOLONG\<close>). The system then
  walks the path from the left: a component longer than \<open>name_max\<close> gives the same
  \<^verbatim>\<open>OSError\<close>, a regular file where a directory is needed gives
  \<^verbatim>\<open>NotADirectoryError\<close>. \<open>ancestors p\<close> are the prefixes of \<open>p\<close> that end before a
  \<^verbatim>\<open>/\<close>, the shortest first, and \<open>path_obstacle\<close> is the exception of the first obstacle,
  if there is one. A prefix that the file system does not list is no obstacle: for
  reading, the path is then reported as missing; for writing, a missing parent directory
  is one of the failures of \<open>write_error\<close>.
\<close>

fun ancestors_from :: "string \<Rightarrow> string \<Rightarrow> string list" where
  "ancestors_from pre [] = []"
| "ancestors_from pre (c # cs) =
     (if c = CHR ''/'' then pre # ancestors_from (pre @ [c]) cs
      else ancestors_from (pre @ [c]) cs)"

definition ancestors :: "string \<Rightarrow> string list" where
  "ancestors p = ancestors_from [] p"

fun is_regular :: "node option \<Rightarrow> bool" where
  "is_regular (Some (RegularFile bytes)) = True"
| "is_regular other = False"

definition path_obstacle :: "runtime \<Rightarrow> filesystem \<Rightarrow> string \<Rightarrow> exn option" where
  "path_obstacle rt fs p =
     (if CHR 0x00 \<in> set p then Some (ValueError ''embedded null byte'')
      else if path_max rt \<le> length p then
        Some (OSError (''[Errno 36] File name too long: '' @ repr rt p))
      else
        (case find (\<lambda>a. name_max rt < length (basename a) \<or> is_regular (fs a)) (ancestors p) of
           Some a \<Rightarrow>
             (if name_max rt < length (basename a) then
                Some (OSError (''[Errno 36] File name too long: '' @ repr rt p))
              else Some (NotADirectoryError (''[Errno 20] Not a directory: '' @ repr rt p)))
         | None \<Rightarrow>
             (if name_max rt < length (basename p) then
                Some (OSError (''[Errno 36] File name too long: '' @ repr rt p))
              else None)))"

text \<open>\<^verbatim>\<open>with open(p, 'r', encoding='utf-8') as f: code = f.read()\<close>\<close>

definition open_read :: "runtime \<Rightarrow> filesystem \<Rightarrow> string \<Rightarrow> exn + string" where
  "open_read rt fs p =
     (case fs p of
        None \<Rightarrow>
          (case path_obstacle rt fs p of
             Some e \<Rightarrow> Inl e
           | None \<Rightarrow>
               Inl (FileNotFoundError (''[Errno 2] No such file or directory: '' @ repr rt p)))
      | Some Directory \<Rightarrow> Inl (IsADirectoryError (''[Errno 21] Is a directory: '' @ repr rt p))
      | Some (RegularFile bytes) \<Rightarrow>
          (case read_error rt p of
             Some e \<Rightarrow> Inl e
           | None \<Rightarrow> decode_utf8 rt bytes))"

text \<open>
  \<^verbatim>\<open>with open(p, 'w', encoding='utf-8') as f: f.write(text)\<close>. The result is the file
  system with the text in the file, or the exception raised with the file system as it is
  then: unchanged when \<^verbatim>\<open>open\<close> raises, with the file created or truncated when the
  writing raises.
\<close>

definition write_text ::
  "runtime \<Rightarrow> filesystem \<Rightarrow> string \<Rightarrow> string \<Rightarrow> exn \<times> filesystem + filesystem" where
  "write_text rt fs p text =
     (case write_error rt p of
        Some (At_open e) \<Rightarrow> Inl (e, fs)
      | Some (At_write e left) \<Rightarrow> Inl (e, fs(p \<mapsto> RegularFile left))
      | None \<Rightarrow> Inr (fs(p \<mapsto> RegularFile text)))"

definition open_write ::
  "runtime \<Rightarrow> filesystem \<Rightarrow> string \<Rightarrow> string \<Rightarrow> exn \<times> filesystem + filesystem" where
  "open_write rt fs p text =
     (case fs p of
        Some Directory \<Rightarrow>
          Inl (IsADirectoryError (''[Errno 21] Is a directory: '' @ repr rt p), fs)
      | Some (RegularFile old) \<Rightarrow> write_text rt fs p text
      | None \<Rightarrow>
          (case path_obstacle rt fs p of
             Some e \<Rightarrow> Inl (e, fs)
           | None \<Rightarrow> write_text rt fs p text))"

text \<open>\<^verbatim>\<open>PurePath.with_suffix\<close>\<close>

definition with_suffix :: "runtime \<Rightarrow> path \<Rightarrow> string \<Rightarrow> exn + path" where
  "with_suffix rt P new_suffix =
     (if CHR ''/'' \<in> set new_suffix then Inl (ValueError (''Invalid suffix '' @ repr rt new_suffix))
      else if (new_suffix \<noteq> [] \<and> take 1 new_suffix \<noteq> ''.'') \<or> new_suffix = ''.''
        then Inl (ValueError (''Invalid suffix '' @ repr rt new_suffix))
      else
        (let name = path_name P in
         if name = [] then
           Inl (ValueError (''PosixPath('' @ repr rt (str_path P) @ '') has an empty name''))
         else
           (let old_suffix = path_suffix P;
                name' = (if old_suffix = [] then name @ new_suffix
                         else take (length name - length old_suffix) name @ new_suffix)
            in Inr (P\<lparr>tail := butlast (tail P) @ [name']\<rparr>))))"

section \<open>highlight.py\<close>

text \<open>
  \<^verbatim>\<open>generate_html(input_file, output_file=None)\<close>, lines 142-202. The result is the
  exception raised, or the returned path, each with the file system as the call leaves
  it. Only the writing changes the file system.
\<close>

definition generate_html ::
  "runtime \<Rightarrow> filesystem \<Rightarrow> string \<Rightarrow> string option \<Rightarrow>
     exn \<times> filesystem + string \<times> filesystem" where
  "generate_html rt fs input_file output_file =
     (if \<not> os_path_exists fs input_file then
        Inl (FileNotFoundError
               (''File '' @ [CHR 0x27] @ input_file @ [CHR 0x27] @ '' not found''), fs)
      else
        (case open_read rt fs input_file of
           Inl e \<Rightarrow> Inl (e, fs)
         | Inr code \<Rightarrow>
             (case highlight rt code of
                Inl e \<Rightarrow> Inl (e, fs)
              | Inr highlighted_code \<Rightarrow>
                  (case (case output_file of
                           None \<Rightarrow> map_sum id str_path (with_suffix rt (Path input_file) ''.html'')
                         | Some given \<Rightarrow> Inr given) of
                     Inl e \<Rightarrow> Inl (e, fs)
                   | Inr output_file' \<Rightarrow>
                       (case open_write rt fs output_file'
                               (html_template input_file highlighted_code) of
                          Inl failed \<Rightarrow> Inl failed
                        | Inr fs' \<Rightarrow> Inr (output_file', fs'))))))"



section \<open>gui_highlighter.py\<close>

text \<open>
  The window is the text of its labels, the style of the drop zone, the message boxes it
  has shown, the programs it has launched and the file system. What the user and the
  desktop contribute is a parameter: \<^verbatim>\<open>sys.platform\<close>, the answer to the question box,
  and the exception, if any, that \<^verbatim>\<open>os.startfile\<close> or \<^verbatim>\<open>subprocess.run\<close> raises.
\<close>

datatype dialog =
    Warning string string
  | Critical string string
  | Question string string

datatype launch = Startfile string | Run "string list"

record window =
  status_label :: string
  title_label :: string
  drag_over :: bool
  dialogs :: "dialog list"
  launches :: "launch list"
  disk :: filesystem

record desktop =
  platform :: string
  answer_yes :: bool
  launch_error :: "launch \<Rightarrow> exn option"

text \<open>\<^verbatim>\<open>str.endswith\<close>\<close>

definition endswith :: "string \<Rightarrow> string \<Rightarrow> bool" where
  "endswith s suf = (length suf \<le> length s \<and> drop (length s - length suf) s = suf)"

text \<open>\<^verbatim>\<open>DropZoneWidget.set_drag_over_style\<close> and \<^verbatim>\<open>reset_style\<close>, lines 228-252\<close>

definition set_drag_over_style :: "window \<Rightarrow> window" where
  "set_drag_over_style w = w\<lparr>drag_over := True, title_label := ''Drop file here''\<rparr>"

definition reset_style :: "window \<Rightarrow> window" where
  "reset_style w = w\<lparr>drag_over := False, title_label := ''Drag & drop .py file here''\<rparr>"

text \<open>\<^verbatim>\<open>HighlighterWindow.generate_html(input_file)\<close>, lines 400-446\<close>

definition gui_generate_html ::
  "runtime \<Rightarrow> filesystem \<Rightarrow> string \<Rightarrow> exn \<times> filesystem + string \<times> filesystem" where
  "gui_generate_html rt fs input_file =
     (case open_read rt fs input_file of
        Inl e \<Rightarrow> Inl (e, fs)
      | Inr code \<Rightarrow>
          (case highlight rt code of
             Inl e \<Rightarrow> Inl (e, fs)
           | Inr highlighted_code \<Rightarrow>
               (case map_sum id str_path (with_suffix rt (Path input_file) ''.html'') of
                  Inl e \<Rightarrow> Inl (e, fs)
                | Inr output_file \<Rightarrow>
                    (case open_write rt fs output_file
                            (gui_html_template input_file highlighted_code) of
                       Inl failed \<Rightarrow> Inl failed
                     | Inr fs' \<Rightarrow> Inr (output_file, fs')))))"

text \<open>\<^verbatim>\<open>HighlighterWindow.open_in_browser\<close>, lines 448-455\<close>

definition open_in_browser :: "desktop \<Rightarrow> string \<Rightarrow> exn + launch" where
  "open_in_browser dk file_path =
     (let cmd = (if platform dk = ''win32'' then Startfile file_path
                 else if platform dk = ''darwin'' then Run [''open'', file_path]
                 else Run [''xdg-open'', file_path])
      in case launch_error dk cmd of
           Some e \<Rightarrow> Inl e
         | None \<Rightarrow> Inr cmd)"

text \<open>
  The two \<^verbatim>\<open>except\<close> clauses of \<^verbatim>\<open>process_file\<close>, lines 393-398, and
  \<^verbatim>\<open>process_file\<close> itself, lines 371-398.
\<close>

definition process_file_except :: "window \<Rightarrow> exn \<Rightarrow> window" where
  "process_file_except w e =
     (if is_FileNotFoundError e then
        w\<lparr>dialogs := dialogs w @ [Critical ''Error'' ''File not found''],
          status_label := ''Error: file not found''\<rparr>
      else
        w\<lparr>dialogs := dialogs w @ [Critical ''Error'' (''An error occurred:
'' @ str_exn e)],
          status_label := ''Error during processing''\<rparr>)"

definition process_file :: "runtime \<Rightarrow> desktop \<Rightarrow> window \<Rightarrow> string \<Rightarrow> window" where
  \<open>process_file rt dk w file_path =
     (let w1 = w\<lparr>status_label := ''Processing file: '' @ basename file_path\<rparr> in
      case gui_generate_html rt (disk w1) file_path of
        Inl (e, fs') \<Rightarrow> process_file_except (w1\<lparr>disk := fs'\<rparr>) e
      | Inr (output_file, fs') \<Rightarrow>
          (let w2 = w1\<lparr>disk := fs',
                       status_label := ''Successfully created: '' @ basename output_file,
                       dialogs := dialogs w1 @
                         [Question ''Success!''
                            (''HTML file successfully created:
'' @ output_file @ ''

Open it in browser?'')]\<rparr>
           in if answer_yes dk then
                (case open_in_browser dk output_file of
                   Inl e \<Rightarrow> process_file_except w2 e
                 | Inr cmd \<Rightarrow> w2\<lparr>launches := launches w2 @ [cmd]\<rparr>)
              else w2))\<close>

text \<open>
  \<^verbatim>\<open>DropZoneWidget.dropEvent\<close>, lines 264-278. The event is the list
  \<^verbatim>\<open>event.mimeData().urls()\<close>, each URL given by its \<^verbatim>\<open>toLocalFile()\<close>.
\<close>

definition dropEvent :: "runtime \<Rightarrow> desktop \<Rightarrow> window \<Rightarrow> string list \<Rightarrow> window" where
  "dropEvent rt dk w urls =
     (let w1 = reset_style w in
      case urls of
        [] \<Rightarrow> w1
      | file_path # _ \<Rightarrow>
          (if endswith file_path ''.py'' then process_file rt dk w1 file_path
           else w1\<lparr>dialogs := dialogs w1 @
                     [Warning ''Error'' ''Please select a file with .py extension'']\<rparr>))"

section \<open>Vocabulary of the properties\<close>

text \<open>
  The statements between the read and the write of \<^verbatim>\<open>generate_html\<close> (highlight.py
  lines 161-192, gui_highlighter.py lines 406-437), as a function of the two variables
  they use: the call of the highlighter and the f-string. Its value is the variable
  \<^verbatim>\<open>html_template\<close>.
\<close>

definition render_html :: "runtime \<Rightarrow> string \<Rightarrow> string \<Rightarrow> exn + string" where
  "render_html rt input_file code =
     (case highlight rt code of
        Inl e \<Rightarrow> Inl e
      | Inr highlighted_code \<Rightarrow> Inr (html_template input_file highlighted_code))"

definition gui_render_html :: "runtime \<Rightarrow> string \<Rightarrow> string \<Rightarrow> exn + string" where
  "gui_render_html rt input_file code =
     (case highlight rt code of
        Inl e \<Rightarrow> Inl e
      | Inr highlighted_code \<Rightarrow> Inr (gui_html_template input_file highlighted_code))"

text \<open>
  The text of the f-string with its three holes as parameters: the stylesheet, the
  display name and the highlighted fragment.
\<close>

definition document :: "string \<Rightarrow> string \<Rightarrow> string \<Rightarrow> string" where
  \<open>document css display_name fragment = ''<!DOCTYPE html>
<html lang="en">
<head>
    <meta charset="UTF-8">
    <meta name="viewport" content="width=device-width, initial-scale=1.0">
    <title>'' @ display_name @ '' - Python Code</title>
    <link href="https://fonts.googleapis.com/css2?family=Fira+Code:wght@400;500&display=swap" rel="stylesheet">
    <style>
        '' @ css @ ''
    </style>
</head>
<body>
    <div class="code-container">
        <div class="file-header">'' @ display_name @ ''</div>
        <div class="code-wrapper">
            '' @ fragment @ ''
        </div>
    </div>
</body>
</html>''\<close>

text \<open>
  The escaping that section 4.1 of the specification asks for: the reserved characters of
  HTML replaced by entities, as \<^verbatim>\<open>html.escape\<close> does; and the document the specification
  describes, with the escaped display name in the title and the file header.
\<close>

fun html_escape_char :: "char \<Rightarrow> string" where
  \<open>html_escape_char c =
     (if c = CHR ''&'' then ''&amp;''
      else if c = CHR ''<'' then ''&lt;''
      else if c = CHR ''>'' then ''&gt;''
      else if c = CHR 0x22 then ''&quot;''
      else if c = CHR 0x27 then ''&#x27;''
      else [c])\<close>

definition html_escape :: "string \<Rightarrow> string" where
  "html_escape s = concat (map html_escape_char s)"

definition specified_html_template :: "string \<Rightarrow> string \<Rightarrow> string" where
  "specified_html_template input_file highlighted_code =
     document MONOKAI_CSS (html_escape (basename input_file)) highlighted_code"

definition reserved_html :: "char set" where
  \<open>reserved_html = {CHR ''&'', CHR ''<'', CHR ''>'', CHR 0x22, CHR 0x27}\<close>

text \<open>
  A stylesheet without its trailing comments: from a space followed by \<^verbatim>\<open>/*\<close> to the
  end of the line is dropped. A comment that starts a line stays.
\<close>

function drop_trailing_comments :: "string \<Rightarrow> string" where
  "drop_trailing_comments [] = []"
| "drop_trailing_comments (c # cs) =
     (if c = CHR '' '' \<and> take 2 cs = ''/*''
      then drop_trailing_comments (dropWhile (\<lambda>x. x \<noteq> CHR 0x0A) cs)
      else c # drop_trailing_comments cs)"
  by pat_completeness auto
termination
  by (relation "measure length") (auto simp: length_dropWhile_le less_Suc_eq_le)

text \<open>
  A path object as \<^verbatim>\<open>Path\<close> builds it: one of the three roots, and components that are
  not empty, not \<^verbatim>\<open>.\<close> and free of \<^verbatim>\<open>/\<close>.
\<close>

definition parsed :: "path \<Rightarrow> bool" where
  "parsed P =
     ((root P = [] \<or> root P = ''/'' \<or> root P = ''//'') \<and>
      list_all (\<lambda>x. x \<noteq> [] \<and> x \<noteq> ''.'' \<and> CHR ''/'' \<notin> set x) (tail P))"

text \<open>
  The words of the specification on the output path, on strings. The last component of a
  path is what follows its last \<^verbatim>\<open>/\<close>. The extension of a file name is its part from
  the last dot on, when that dot is neither the first nor the last character of the name.
  \<open>with_html_extension\<close> is a path with the extension of its last component replaced by
  \<^verbatim>\<open>.html\<close> (appended, when there is no extension). A path is respelled plainly by
  dropping its empty components and its components \<^verbatim>\<open>.\<close>, which leaves the place it
  names; of its leading slashes one is kept, or two when there are exactly two.
\<close>

definition last_component :: "string \<Rightarrow> string" where
  "last_component p = rev (takeWhile (\<lambda>c. c \<noteq> CHR ''/'') (rev p))"

definition extension :: "string \<Rightarrow> string" where
  "extension name =
     (let after = rev (takeWhile (\<lambda>c. c \<noteq> CHR ''.'') (rev name))
      in if CHR ''.'' \<in> set name \<and> after \<noteq> [] \<and> Suc (length after) < length name
         then CHR ''.'' # after else [])"

definition with_html_extension :: "string \<Rightarrow> string" where
  "with_html_extension p =
     take (length p - length (extension (last_component p))) p @ ''.html''"

definition components :: "string \<Rightarrow> string list" where
  "components p = filter (\<lambda>c. c \<noteq> [] \<and> c \<noteq> ''.'') (str_split (CHR ''/'') p)"

definition leading_root :: "string \<Rightarrow> string" where
  "leading_root p =
     (let n = length (takeWhile (\<lambda>c. c = CHR ''/'') p)
      in if n = 0 then [] else if n = 2 then ''//'' else ''/'')"

definition respelled :: "string \<Rightarrow> string" where
  "respelled p = leading_root p @ str_join ''/'' (components p)"

definition plainly_spelled :: "string \<Rightarrow> bool" where
  "plainly_spelled p = (components p \<noteq> [] \<and> respelled p = p)"

text \<open>
  A runtime, a file system, a desktop and a window at which the theorems are instantiated:
  a highlighter that wraps the text in \<^verbatim>\<open>pre\<close>, bytes that are their own text, no
  permission failure, a few source files and an older output file; the window as
  \<^verbatim>\<open>init_ui\<close> leaves it.
\<close>

fun plain_highlight :: "string \<Rightarrow> exn + string" where
  "plain_highlight code = Inr (''<pre>'' @ code @ ''</pre>'')"

fun quote_repr :: "string \<Rightarrow> string" where
  "quote_repr s = [CHR 0x27] @ s @ [CHR 0x27]"

fun no_error :: "string \<Rightarrow> exn option" where
  "no_error p = None"

fun no_failure :: "string \<Rightarrow> failure option" where
  "no_failure p = None"

fun no_launch_error :: "launch \<Rightarrow> exn option" where
  "no_launch_error cmd = None"

definition example_runtime :: runtime where
  "example_runtime =
     \<lparr>highlight = plain_highlight, decode_utf8 = Inr, repr = quote_repr,
      read_error = no_error, write_error = no_failure, name_max = 255, path_max = 4096\<rparr>"

definition example_files :: filesystem where
  "example_files =
     [''foo'' \<mapsto> Directory,
      ''foo/bar.py'' \<mapsto> RegularFile ''x = 1'',
      ''bar.py'' \<mapsto> RegularFile ''x = 1'',
      ''foo/bar.html'' \<mapsto> RegularFile ''stale'',
      ''a<b.py'' \<mapsto> RegularFile [],
      ''notes.txt'' \<mapsto> RegularFile ''hello'']"

definition example_desktop :: desktop where
  "example_desktop =
     \<lparr>platform = ''linux'', answer_yes = True, launch_error = no_launch_error\<rparr>"

definition example_window :: window where
  "example_window =
     \<lparr>status_label = ''Ready'', title_label = ''Drag & drop .py file here'',
      drag_over = False, dialogs = [], launches = [], disk = example_files\<rparr>"

text \<open>
  A second file system, with a source file spelled with a leading \<^verbatim>\<open>./\<close> and a source file
  whose output path is taken by a directory; and a desktop without the program that opens
  files.
\<close>

definition awkward_files :: filesystem where
  "awkward_files =
     [''./bar.py'' \<mapsto> RegularFile ''x = 1'',
      ''d.py'' \<mapsto> RegularFile ''x = 1'',
      ''d.html'' \<mapsto> Directory]"



section \<open>Strings and paths\<close>

lemma rfind_absent: "c \<notin> set s \<Longrightarrow> rfind s c = - 1"
  by (simp add: rfind_def)

lemma rfind_append_last:
  assumes "c \<notin> set t"
  shows "rfind (s @ c # t) c = int (length s)"
proof -
  from assms have "takeWhile (\<lambda>x. x \<noteq> c) (rev t @ c # rev s) = rev t"
    by (auto simp: takeWhile_tail takeWhile_eq_all_conv)
  then show ?thesis by (simp add: rfind_def)
qed


lemma basename_append:
  assumes "CHR ''/'' \<notin> set b"
  shows "basename (a @ CHR ''/'' # b) = b"
proof -
  from assms have "rfind (a @ CHR ''/'' # b) (CHR ''/'') = int (length a)"
    by (rule rfind_append_last)
  moreover have "nat (int (length a) + 1) = Suc (length a)" by simp
  ultimately show ?thesis by (simp add: basename_def)
qed

lemma path_stem_suffix: "path_stem P @ path_suffix P = path_name P"
  by (simp add: path_stem_def path_suffix_def Let_def)

lemma path_stem_nonempty: "path_name P \<noteq> [] \<Longrightarrow> path_stem P \<noteq> []"
  by (auto simp: path_stem_def Let_def)

lemma with_suffix_html:
  "with_suffix rt P ''.html'' =
     (if path_name P = [] then
        Inl (ValueError (''PosixPath('' @ repr rt (str_path P) @ '') has an empty name''))
      else Inr (P\<lparr>tail := butlast (tail P) @ [path_stem P @ ''.html'']\<rparr>))"
proof -
  have "take (length (path_name P) - length (path_suffix P)) (path_name P) = path_stem P"
    by (metis path_stem_suffix append_eq_conv_conj length_append add_diff_cancel_right')
  moreover have "path_suffix P = [] \<Longrightarrow> path_stem P = path_name P"
    using path_stem_suffix [of P] by simp
  ultimately show ?thesis
    by (simp add: with_suffix_def Let_def)
qed

lemma str_split_no_sep: "c \<notin> set x \<Longrightarrow> str_split c x = [x]"
  by (induction x) auto

lemma str_split_append: "c \<notin> set x \<Longrightarrow> str_split c (x @ c # r) = x # str_split c r"
  by (induction x) auto

lemma str_split_free: "x \<in> set (str_split c s) \<Longrightarrow> c \<notin> set x"
  by (induction s arbitrary: x) (auto split: if_splits list.splits)

lemma str_split_join:
  "xs \<noteq> [] \<Longrightarrow> list_all (\<lambda>x. c \<notin> set x) xs \<Longrightarrow> str_split c (str_join [c] xs) = xs"
  by (induction "[c]" xs rule: str_join.induct) (auto simp: str_split_no_sep str_split_append)

lemma str_join_snoc:
  "str_join sep (xs @ [y]) = (if xs = [] then y else str_join sep xs @ sep @ y)"
  by (induction sep xs rule: str_join.induct) auto

lemma str_join_Cons:
  "x \<noteq> [] \<Longrightarrow> \<exists>r. str_join sep (x # xs) = hd x # r"
  by (cases xs; cases x) auto

lemma parsed_Path: "parsed (Path p)"
  by (auto simp: parsed_def Path_def splitroot_def list_all_iff dest: str_split_free
           split: prod.splits if_splits)

lemma Path_str_path:
  assumes "parsed P" and "tail P \<noteq> []"
  shows "Path (str_path P) = P"
proof -
  let ?j = "str_join ''/'' (tail P)"
  from assms obtain x xs where t: "tail P = x # xs" by (cases "tail P") auto
  with assms have x: "x \<noteq> []" "CHR ''/'' \<notin> set x" by (auto simp: parsed_def)
  then obtain r where j: "?j = hd x # r" using str_join_Cons t by metis
  from x have hx: "hd x \<noteq> CHR ''/''" by (cases x) auto
  from assms have "list_all (\<lambda>x. CHR ''/'' \<notin> set x) (tail P)"
    by (auto simp: parsed_def list_all_iff)
  with assms have split: "str_split (CHR ''/'') ?j = tail P"
    using str_split_join by blast
  from assms have keep: "filter (\<lambda>x. x \<noteq> [] \<and> x \<noteq> ''.'') (tail P) = tail P"
    by (auto simp: parsed_def list_all_iff filter_id_conv)
  from assms have "root P = [] \<or> root P = ''/'' \<or> root P = ''//''"
    by (simp add: parsed_def)
  then have "Path (str_path P) = \<lparr>root = root P, tail = tail P\<rparr>"
  proof (elim disjE)
    assume "root P = []"
    with j hx split keep show ?thesis
      by (simp add: str_path_def Path_def splitroot_def)
  next
    assume "root P = ''/''"
    with j hx split keep show ?thesis
      by (simp add: str_path_def Path_def splitroot_def)
  next
    assume "root P = ''//''"
    with j hx split keep show ?thesis
      by (simp add: str_path_def Path_def splitroot_def)
  qed
  then show ?thesis by simp
qed

lemma str_path_snoc:
  assumes "n \<noteq> []"
  shows "str_path (P\<lparr>tail := xs @ [n]\<rparr>) =
           root P @ (if xs = [] then [] else str_join ''/'' xs @ ''/'') @ n"
  using assms by (simp add: str_path_def str_join_snoc)

section \<open>The document\<close>

lemma html_template_document:
  "html_template input_file fragment = document MONOKAI_CSS (basename input_file) fragment"
  by (simp add: html_template_def document_def)

lemma gui_html_template_document:
  "gui_html_template input_file fragment =
     document gui_MONOKAI_CSS (basename input_file) fragment"
  by (simp add: gui_html_template_def document_def)


lemma document_title:
  "sublist (''<title>'' @ display_name @ '' - Python Code</title>'')
     (document css display_name fragment)"
proof -
  have \<open>document css display_name fragment =
          (''<!DOCTYPE html>
<html lang="en">
<head>
    <meta charset="UTF-8">
    <meta name="viewport" content="width=device-width, initial-scale=1.0">
    '') @ (''<title>'' @ display_name @ '' - Python Code</title>'') @ (''
    <link href="https://fonts.googleapis.com/css2?family=Fira+Code:wght@400;500&display=swap" rel="stylesheet">
    <style>
        '' @ css @ ''
    </style>
</head>
<body>
    <div class="code-container">
        <div class="file-header">'' @ display_name @ ''</div>
        <div class="code-wrapper">
            '' @ fragment @ ''
        </div>
    </div>
</body>
</html>'')\<close>
    by (simp add: document_def)
  then show ?thesis
    by (metis sublist_appendI)
qed

lemma document_header:
  \<open>sublist (''<div class="file-header">'' @ display_name @ ''</div>'')
     (document css display_name fragment)\<close>
proof -
  have \<open>document css display_name fragment =
          (''<!DOCTYPE html>
<html lang="en">
<head>
    <meta charset="UTF-8">
    <meta name="viewport" content="width=device-width, initial-scale=1.0">
    <title>'' @ display_name @ '' - Python Code</title>
    <link href="https://fonts.googleapis.com/css2?family=Fira+Code:wght@400;500&display=swap" rel="stylesheet">
    <style>
        '' @ css @ ''
    </style>
</head>
<body>
    <div class="code-container">
        '') @ (''<div class="file-header">'' @ display_name @ ''</div>'') @ (''
        <div class="code-wrapper">
            '' @ fragment @ ''
        </div>
    </div>
</body>
</html>'')\<close>
    by (simp add: document_def)
  then show ?thesis
    by (metis sublist_appendI)
qed

section \<open>Reading, writing and the two conversions\<close>

lemma open_read_Inr:
  "open_read rt fs p = Inr code \<longleftrightarrow>
     (\<exists>bytes. fs p = Some (RegularFile bytes) \<and> read_error rt p = None \<and>
              decode_utf8 rt bytes = Inr code)"
  by (auto simp: open_read_def split: option.splits node.splits)


lemma write_text_Inr:
  "write_text rt fs p text = Inr fs' \<longleftrightarrow>
     write_error rt p = None \<and> fs' = fs(p \<mapsto> RegularFile text)"
  by (auto simp: write_text_def split: option.splits failure.splits)

lemma open_write_Inr:
  "open_write rt fs p text = Inr fs' \<longleftrightarrow>
     fs p \<noteq> Some Directory \<and> (fs p = None \<longrightarrow> path_obstacle rt fs p = None) \<and>
     write_error rt p = None \<and> fs' = fs(p \<mapsto> RegularFile text)"
  by (auto simp: open_write_def write_text_Inr split: option.splits node.splits)



lemma derived_path_Inr:
  "map_sum id str_path (with_suffix rt (Path input_file) ''.html'') = Inr out \<longleftrightarrow>
     path_name (Path input_file) \<noteq> [] \<and>
     out = str_path ((Path input_file)
             \<lparr>tail := butlast (tail (Path input_file)) @ [path_stem (Path input_file) @ ''.html'']\<rparr>)"
  by (auto simp: with_suffix_html)

lemma generate_html_Inr:
  "generate_html rt fs input_file output_file = Inr (out, fs') \<longleftrightarrow>
     (\<exists>code fragment.
        open_read rt fs input_file = Inr code \<and>
        highlight rt code = Inr fragment \<and>
        (case output_file of
           None \<Rightarrow> map_sum id str_path (with_suffix rt (Path input_file) ''.html'')
         | Some given \<Rightarrow> Inr given) = Inr out \<and>
        open_write rt fs out (html_template input_file fragment) = Inr fs')"
proof
  assume "generate_html rt fs input_file output_file = Inr (out, fs')"
  then show "\<exists>code fragment.
        open_read rt fs input_file = Inr code \<and>
        highlight rt code = Inr fragment \<and>
        (case output_file of
           None \<Rightarrow> map_sum id str_path (with_suffix rt (Path input_file) ''.html'')
         | Some given \<Rightarrow> Inr given) = Inr out \<and>
        open_write rt fs out (html_template input_file fragment) = Inr fs'"
    by (auto simp: generate_html_def split: if_splits sum.splits)
next
  assume "\<exists>code fragment.
        open_read rt fs input_file = Inr code \<and>
        highlight rt code = Inr fragment \<and>
        (case output_file of
           None \<Rightarrow> map_sum id str_path (with_suffix rt (Path input_file) ''.html'')
         | Some given \<Rightarrow> Inr given) = Inr out \<and>
        open_write rt fs out (html_template input_file fragment) = Inr fs'"
  then obtain code fragment where
    r: "open_read rt fs input_file = Inr code" and
    h: "highlight rt code = Inr fragment" and
    p: "(case output_file of
           None \<Rightarrow> map_sum id str_path (with_suffix rt (Path input_file) ''.html'')
         | Some given \<Rightarrow> Inr given) = Inr out" and
    w: "open_write rt fs out (html_template input_file fragment) = Inr fs'"
    by blast
  from r have "os_path_exists fs input_file"
    by (auto simp: open_read_Inr os_path_exists_def)
  with r h p w show "generate_html rt fs input_file output_file = Inr (out, fs')"
    by (simp add: generate_html_def)
qed

lemma gui_generate_html_Inr:
  "gui_generate_html rt fs input_file = Inr (out, fs') \<longleftrightarrow>
     (\<exists>code fragment.
        open_read rt fs input_file = Inr code \<and>
        highlight rt code = Inr fragment \<and>
        map_sum id str_path (with_suffix rt (Path input_file) ''.html'') = Inr out \<and>
        open_write rt fs out (gui_html_template input_file fragment) = Inr fs')"
  by (auto simp: gui_generate_html_def split: sum.splits)

section \<open>The examples\<close>

lemma example_run:
  "generate_html example_runtime example_files ''foo/bar.py'' None =
     Inr (''foo/bar.html'',
          example_files(''foo/bar.html'' \<mapsto>
            RegularFile (html_template ''foo/bar.py'' ''<pre>x = 1</pre>'')))"
  by (simp add: generate_html_def os_path_exists_def open_read_def open_write_def write_text_def
        path_obstacle_def ancestors_def basename_def
        example_runtime_def example_files_def with_suffix_html Path_def splitroot_def
        path_name_def path_stem_def rfind_def str_path_def)

lemma example_run_given:
  "generate_html example_runtime example_files ''foo/bar.py'' (Some ''copy.html'') =
     Inr (''copy.html'',
          example_files(''copy.html'' \<mapsto>
            RegularFile (html_template ''foo/bar.py'' ''<pre>x = 1</pre>'')))"
  by (simp add: generate_html_def os_path_exists_def open_read_def open_write_def write_text_def
        path_obstacle_def ancestors_def basename_def
        example_runtime_def example_files_def)

lemma gui_example_run:
  "gui_generate_html example_runtime example_files ''foo/bar.py'' =
     Inr (''foo/bar.html'',
          example_files(''foo/bar.html'' \<mapsto>
            RegularFile (gui_html_template ''foo/bar.py'' ''<pre>x = 1</pre>'')))"
  by (simp add: gui_generate_html_def open_read_def open_write_def write_text_def
        path_obstacle_def ancestors_def basename_def
        example_runtime_def example_files_def with_suffix_html Path_def splitroot_def
        path_name_def path_stem_def rfind_def str_path_def)

lemma example_run_bar:
  "generate_html example_runtime example_files ''bar.py'' None =
     Inr (''bar.html'',
          example_files(''bar.html'' \<mapsto>
            RegularFile (html_template ''bar.py'' ''<pre>x = 1</pre>'')))"
  by (simp add: generate_html_def os_path_exists_def open_read_def open_write_def write_text_def
        path_obstacle_def ancestors_def basename_def
        example_runtime_def example_files_def with_suffix_html Path_def splitroot_def
        path_name_def path_stem_def rfind_def str_path_def)

lemma gui_example_run_bar:
  "gui_generate_html example_runtime example_files ''bar.py'' =
     Inr (''bar.html'',
          example_files(''bar.html'' \<mapsto>
            RegularFile (gui_html_template ''bar.py'' ''<pre>x = 1</pre>'')))"
  by (simp add: gui_generate_html_def open_read_def open_write_def write_text_def
        path_obstacle_def ancestors_def basename_def
        example_runtime_def example_files_def with_suffix_html Path_def splitroot_def
        path_name_def path_stem_def rfind_def str_path_def)

lemma example_read:
  "open_read example_runtime example_files ''foo/bar.py'' = Inr ''x = 1''"
  "open_read example_runtime example_files ''bar.py'' = Inr ''x = 1''"
  by (simp_all add: open_read_def example_runtime_def example_files_def)

lemma example_basename: "basename ''foo/bar.py'' = ''bar.py''" "basename ''bar.py'' = ''bar.py''"
  by (simp_all add: basename_def rfind_def)

lemma example_derived:
  "map_sum id str_path (with_suffix example_runtime (Path ''foo/bar.py'') ''.html'') =
     Inr ''foo/bar.html''"
  by (simp add: with_suffix_html Path_def splitroot_def path_name_def path_stem_def rfind_def
        str_path_def)

section \<open>Claims\<close>

text \<open>
  C1. The document depends only on the source text and on the name of the file. Two
  paths with the same base name give, for the same text, the same result of the
  rendering statements in both modules; and two runs of \<^verbatim>\<open>generate_html\<close>, in any two
  file systems, with any output paths, that read the same text from files of the same
  base name write the same document, which is the value of the rendering statements. The
  highlighter is a function of the text it is given.
\<close>

theorem render_deterministic:
  assumes "basename p1 = basename p2"
  shows "render_html rt p1 code = render_html rt p2 code \<and>
         gui_render_html rt p1 code = gui_render_html rt p2 code \<and>
         (open_read rt fs1 p1 = Inr code \<longrightarrow> open_read rt fs2 p2 = Inr code \<longrightarrow>
          generate_html rt fs1 p1 o1 = Inr (out1, fs1') \<longrightarrow>
          generate_html rt fs2 p2 o2 = Inr (out2, fs2') \<longrightarrow>
            fs1' out1 = fs2' out2 \<and>
            (\<exists>doc. render_html rt p1 code = Inr doc \<and> fs1' out1 = Some (RegularFile doc))) \<and>
         (open_read rt fs1 p1 = Inr code \<longrightarrow> open_read rt fs2 p2 = Inr code \<longrightarrow>
          gui_generate_html rt fs1 p1 = Inr (gout1, gfs1') \<longrightarrow>
          gui_generate_html rt fs2 p2 = Inr (gout2, gfs2') \<longrightarrow>
            gfs1' gout1 = gfs2' gout2 \<and>
            (\<exists>doc. gui_render_html rt p1 code = Inr doc \<and>
                   gfs1' gout1 = Some (RegularFile doc)))"
proof (intro conjI impI)
  from assms show a: "render_html rt p1 code = render_html rt p2 code"
    by (simp add: render_html_def html_template_document split: sum.splits)
  from assms show b: "gui_render_html rt p1 code = gui_render_html rt p2 code"
    by (simp add: gui_render_html_def gui_html_template_document split: sum.splits)
  {
    assume r1: "open_read rt fs1 p1 = Inr code" and r2: "open_read rt fs2 p2 = Inr code"
      and g1: "generate_html rt fs1 p1 o1 = Inr (out1, fs1')"
      and g2: "generate_html rt fs2 p2 o2 = Inr (out2, fs2')"
    from g1 r1 obtain f1 where f1: "highlight rt code = Inr f1"
      "fs1' = fs1(out1 \<mapsto> RegularFile (html_template p1 f1))"
      by (auto simp: generate_html_Inr open_write_Inr)
    from g2 r2 obtain f2 where f2: "highlight rt code = Inr f2"
      "fs2' = fs2(out2 \<mapsto> RegularFile (html_template p2 f2))"
      by (auto simp: generate_html_Inr open_write_Inr)
    from f1 f2 assms show "fs1' out1 = fs2' out2"
      by (simp add: html_template_document)
    from f1 show "\<exists>doc. render_html rt p1 code = Inr doc \<and> fs1' out1 = Some (RegularFile doc)"
      by (simp add: render_html_def)
  }
  {
    assume r1: "open_read rt fs1 p1 = Inr code" and r2: "open_read rt fs2 p2 = Inr code"
      and g1: "gui_generate_html rt fs1 p1 = Inr (gout1, gfs1')"
      and g2: "gui_generate_html rt fs2 p2 = Inr (gout2, gfs2')"
    from g1 r1 obtain f1 where f1: "highlight rt code = Inr f1"
      "gfs1' = fs1(gout1 \<mapsto> RegularFile (gui_html_template p1 f1))"
      by (auto simp: gui_generate_html_Inr open_write_Inr)
    from g2 r2 obtain f2 where f2: "highlight rt code = Inr f2"
      "gfs2' = fs2(gout2 \<mapsto> RegularFile (gui_html_template p2 f2))"
      by (auto simp: gui_generate_html_Inr open_write_Inr)
    from f1 f2 assms show "gfs1' gout1 = gfs2' gout2"
      by (simp add: gui_html_template_document)
    from f1 show "\<exists>doc. gui_render_html rt p1 code = Inr doc \<and>
                   gfs1' gout1 = Some (RegularFile doc)"
      by (simp add: gui_render_html_def)
  }
qed

theorem render_deterministic_witness:
  "basename ''foo/bar.py'' = basename ''bar.py'' \<and>
   render_html example_runtime ''foo/bar.py'' ''x = 1'' =
     render_html example_runtime ''bar.py'' ''x = 1'' \<and>
   gui_render_html example_runtime ''foo/bar.py'' ''x = 1'' =
     gui_render_html example_runtime ''bar.py'' ''x = 1'' \<and>
   (example_files(''foo/bar.html'' \<mapsto>
      RegularFile (html_template ''foo/bar.py'' ''<pre>x = 1</pre>''))) ''foo/bar.html'' =
   (example_files(''bar.html'' \<mapsto>
      RegularFile (html_template ''bar.py'' ''<pre>x = 1</pre>''))) ''bar.html'' \<and>
   (example_files(''foo/bar.html'' \<mapsto>
      RegularFile (gui_html_template ''foo/bar.py'' ''<pre>x = 1</pre>''))) ''foo/bar.html'' =
   (example_files(''bar.html'' \<mapsto>
      RegularFile (gui_html_template ''bar.py'' ''<pre>x = 1</pre>''))) ''bar.html''"
proof -
  have b: "basename ''foo/bar.py'' = basename ''bar.py''"
    by (simp add: example_basename)
  note t = render_deterministic [OF b, where rt = example_runtime and code = "''x = 1''"
      and ?fs1.0 = example_files and ?fs2.0 = example_files and ?o1.0 = None and ?o2.0 = None,
      unfolded example_read example_run example_run_bar gui_example_run gui_example_run_bar]
  from t b show ?thesis by blast
qed

lemma suffix_extension: "path_suffix P = extension (path_name P)"
proof (cases "CHR ''.'' \<in> set (path_name P)")
  case False
  then show ?thesis
    by (simp add: path_suffix_def extension_def rfind_absent)
next
  case True
  then obtain a b where n: "path_name P = a @ CHR ''.'' # b" and b: "CHR ''.'' \<notin> set b"
    using split_list_last by fastforce
  from b have r: "rfind (a @ CHR ''.'' # b) (CHR ''.'') = int (length a)"
    by (rule rfind_append_last)
  from b have "takeWhile (\<lambda>c. c \<noteq> CHR ''.'') (rev b @ CHR ''.'' # rev a) = rev b"
    by (auto simp: takeWhile_tail takeWhile_eq_all_conv)
  with n r show ?thesis
    by (auto simp: path_suffix_def extension_def)
qed

lemma last_component_append:
  assumes "CHR ''/'' \<notin> set name" and "pre = [] \<or> last pre = CHR ''/''"
  shows "last_component (pre @ name) = name"
proof (cases "pre = []")
  case True
  from assms have "takeWhile (\<lambda>c. c \<noteq> CHR ''/'') (rev name) = rev name"
    by (auto simp: takeWhile_eq_all_conv)
  with True show ?thesis
    by (simp only: last_component_def append_Nil rev_rev_ident)
next
  case False
  with assms obtain q where "pre = q @ [CHR ''/'']"
    by (metis append_butlast_last_id)
  moreover from assms have "takeWhile (\<lambda>c. c \<noteq> CHR ''/'') (rev name @ CHR ''/'' # rev q) = rev name"
    by (auto simp: takeWhile_tail takeWhile_eq_all_conv)
  ultimately show ?thesis
    by (simp only: last_component_def rev_append rev.simps append_Nil append_Cons append_assoc
          rev_rev_ident)
qed

lemma Path_components: "root (Path p) = leading_root p \<and> tail (Path p) = components p"
proof (cases p)
  case Nil
  then show ?thesis
    by (simp add: Path_def leading_root_def components_def)
next
  case (Cons c cs)
  note p = Cons
  show ?thesis
  proof (cases "c = CHR ''/''")
    case False
    with p show ?thesis
      by (simp add: Path_def splitroot_def leading_root_def components_def)
  next
    case True
    note c = True
    show ?thesis
    proof (cases cs)
      case Nil
      with p c show ?thesis
        by (simp add: Path_def splitroot_def leading_root_def components_def)
    next
      case (Cons d ds)
      note cs = Cons
      show ?thesis
      proof (cases "d = CHR ''/''")
        case False
        with p c cs show ?thesis
          by (simp add: Path_def splitroot_def leading_root_def components_def)
      next
        case True
        note d = True
        show ?thesis
        proof (cases ds)
          case Nil
          with p c cs d show ?thesis
            by (simp add: Path_def splitroot_def leading_root_def components_def)
        next
          case (Cons e es)
          with p c cs d show ?thesis
            by (simp add: Path_def splitroot_def leading_root_def components_def Let_def)
        qed
      qed
    qed
  qed
qed

lemma str_path_respelled:
  assumes "components p \<noteq> []"
  shows "str_path (Path p) = respelled p"
proof -
  from assms obtain x xs where t: "components p = x # xs"
    by (cases "components p") auto
  then have "x \<in> set (components p)" by simp
  then have "x \<noteq> []" by (simp add: components_def)
  then have "str_join ''/'' (components p) \<noteq> []"
    using str_join_Cons [of x "''/''" xs] t by auto
  then show ?thesis
    by (simp add: str_path_def respelled_def Path_components)
qed

lemma derived_path:
  assumes name: "path_name (Path p) \<noteq> []"
  shows "str_path ((Path p)\<lparr>tail := butlast (tail (Path p)) @ [path_stem (Path p) @ ''.html'']\<rparr>) =
           with_html_extension (respelled p)"
proof -
  let ?P = "Path p"
  let ?stem = "path_stem ?P"
  let ?pre = "root ?P @ (if butlast (tail ?P) = [] then [] else str_join ''/'' (butlast (tail ?P)) @ ''/'')"
  from name have t: "tail ?P \<noteq> []" and l: "last (tail ?P) = path_name ?P"
    by (auto simp: path_name_def split: if_splits)
  have parsed: "parsed ?P" by (rule parsed_Path)
  from t l have "path_name ?P \<in> set (tail ?P)" by (metis last_in_set)
  with parsed have free: "CHR ''/'' \<notin> set (path_name ?P)"
    by (auto simp: parsed_def list_all_iff)
  from t have "components p \<noteq> []" by (simp add: Path_components)
  then have q: "str_path ?P = respelled p" by (rule str_path_respelled)
  from t l have "butlast (tail ?P) @ [path_name ?P] = tail ?P"
    by (metis append_butlast_last_id)
  then have "?P\<lparr>tail := butlast (tail ?P) @ [path_name ?P]\<rparr> = ?P"
    by simp
  then have "str_path ?P = ?pre @ path_name ?P"
    using str_path_snoc [OF name, where P = ?P and xs = "butlast (tail ?P)"] by simp
  with q have r0: "respelled p = ?pre @ path_name ?P"
    by simp
  then have r: "respelled p = ?pre @ ?stem @ path_suffix ?P"
    by (simp only: path_stem_suffix)
  from parsed have "root ?P = [] \<or> root ?P = ''/'' \<or> root ?P = ''//''"
    by (simp add: parsed_def)
  then have "?pre = [] \<or> last ?pre = CHR ''/''" by auto
  with free have "last_component (?pre @ path_name ?P) = path_name ?P"
    by (rule last_component_append)
  with r0 have "last_component (respelled p) = path_name ?P"
    by (simp only:)
  then have "extension (last_component (respelled p)) = path_suffix ?P"
    by (simp only: suffix_extension)
  moreover from r have "take (length (respelled p) - length (path_suffix ?P)) (respelled p) = ?pre @ ?stem"
    by (metis append.assoc append_eq_conv_conj length_append add_diff_cancel_right')
  moreover have "str_path (?P\<lparr>tail := butlast (tail ?P) @ [?stem @ ''.html'']\<rparr>) = ?pre @ ?stem @ ''.html''"
    using str_path_snoc [where n = "?stem @ ''.html''" and P = ?P and xs = "butlast (tail ?P)"]
    by simp
  ultimately show ?thesis
    by (simp add: with_html_extension_def)
qed

text \<open>
  C3. Without an output path, a conversion that succeeds, in either module, produces the
  file at the input path with its extension replaced by \<^verbatim>\<open>.html\<close>. The input path is taken
  in its plain spelling, the one \<^verbatim>\<open>pathlib\<close> prints: for an input path that is plainly
  spelled the output path is, character for character, the input path with the extension
  of its last component replaced by \<^verbatim>\<open>.html\<close> (a name without extension gets \<^verbatim>\<open>.html\<close>
  appended), and \<^verbatim>\<open>./bar.py\<close> gives \<^verbatim>\<open>bar.html\<close>. With an output path given, the file is
  produced at exactly that path.
\<close>

theorem output_path_derivation:
  "(generate_html rt fs input_file None = Inr (out, fs') \<longrightarrow>
      out = with_html_extension (respelled input_file) \<and>
      (plainly_spelled input_file \<longrightarrow> out = with_html_extension input_file) \<and>
      (\<exists>doc. fs' out = Some (RegularFile doc))) \<and>
   (gui_generate_html rt fs input_file = Inr (gout, gfs') \<longrightarrow>
      gout = with_html_extension (respelled input_file) \<and>
      (plainly_spelled input_file \<longrightarrow> gout = with_html_extension input_file) \<and>
      (\<exists>doc. gfs' gout = Some (RegularFile doc))) \<and>
   (generate_html rt fs input_file (Some given) = Inr (out2, fs2') \<longrightarrow>
      out2 = given \<and> (\<exists>doc. fs2' given = Some (RegularFile doc)))"
proof (intro conjI impI)
  {
    assume "generate_html rt fs input_file None = Inr (out, fs')"
    then have o: "out = with_html_extension (respelled input_file)"
      and w: "\<exists>doc. fs' out = Some (RegularFile doc)"
      by (auto simp: generate_html_Inr derived_path_Inr open_write_Inr derived_path)
    from o show "out = with_html_extension (respelled input_file)" .
    from w show "\<exists>doc. fs' out = Some (RegularFile doc)" .
    assume "plainly_spelled input_file"
    with o show "out = with_html_extension input_file"
      by (simp add: plainly_spelled_def)
  }
  {
    assume "gui_generate_html rt fs input_file = Inr (gout, gfs')"
    then have o: "gout = with_html_extension (respelled input_file)"
      and w: "\<exists>doc. gfs' gout = Some (RegularFile doc)"
      by (auto simp: gui_generate_html_Inr derived_path_Inr open_write_Inr derived_path)
    from o show "gout = with_html_extension (respelled input_file)" .
    from w show "\<exists>doc. gfs' gout = Some (RegularFile doc)" .
    assume "plainly_spelled input_file"
    with o show "gout = with_html_extension input_file"
      by (simp add: plainly_spelled_def)
  }
  {
    assume "generate_html rt fs input_file (Some given) = Inr (out2, fs2')"
    then show "out2 = given" and "\<exists>doc. fs2' given = Some (RegularFile doc)"
      by (auto simp: generate_html_Inr open_write_Inr)
  }
qed

lemma example_spelling:
  "plainly_spelled ''foo/bar.py''"
  "with_html_extension ''foo/bar.py'' = ''foo/bar.html''"
  "respelled ''./bar.py'' = ''bar.py''"
  "with_html_extension ''bar.py'' = ''bar.html''"
  by (simp_all add: plainly_spelled_def respelled_def components_def leading_root_def
        with_html_extension_def last_component_def extension_def)

lemma awkward_run:
  "generate_html example_runtime awkward_files ''./bar.py'' None =
     Inr (''bar.html'',
          awkward_files(''bar.html'' \<mapsto>
            RegularFile (html_template ''./bar.py'' ''<pre>x = 1</pre>'')))"
  by (simp add: generate_html_def os_path_exists_def open_read_def open_write_def write_text_def
        path_obstacle_def ancestors_def basename_def
        example_runtime_def awkward_files_def with_suffix_html Path_def splitroot_def
        path_name_def path_stem_def rfind_def str_path_def)

theorem output_path_derivation_witness:
  "plainly_spelled ''foo/bar.py'' \<and>
   with_html_extension ''foo/bar.py'' = ''foo/bar.html'' \<and>
   generate_html example_runtime example_files ''foo/bar.py'' None =
     Inr (''foo/bar.html'',
          example_files(''foo/bar.html'' \<mapsto>
            RegularFile (html_template ''foo/bar.py'' ''<pre>x = 1</pre>''))) \<and>
   gui_generate_html example_runtime example_files ''foo/bar.py'' =
     Inr (''foo/bar.html'',
          example_files(''foo/bar.html'' \<mapsto>
            RegularFile (gui_html_template ''foo/bar.py'' ''<pre>x = 1</pre>''))) \<and>
   generate_html example_runtime example_files ''foo/bar.py'' (Some ''copy.html'') =
     Inr (''copy.html'',
          example_files(''copy.html'' \<mapsto>
            RegularFile (html_template ''foo/bar.py'' ''<pre>x = 1</pre>''))) \<and>
   generate_html example_runtime awkward_files ''./bar.py'' None =
     Inr (''bar.html'',
          awkward_files(''bar.html'' \<mapsto>
            RegularFile (html_template ''./bar.py'' ''<pre>x = 1</pre>''))) \<and>
   ''bar.html'' = with_html_extension (respelled ''./bar.py'')"
  using output_path_derivation [where rt = example_runtime and fs = example_files
      and input_file = "''foo/bar.py''" and out = "''foo/bar.html''" and gout = "''foo/bar.html''"
      and given = "''copy.html''" and ?out2.0 = "''copy.html''",
      unfolded example_run gui_example_run example_run_given]
    output_path_derivation [where rt = example_runtime and fs = awkward_files
      and input_file = "''./bar.py''" and out = "''bar.html''", unfolded awkward_run]
  by (simp add: example_run gui_example_run example_run_given awkward_run example_spelling)

lemma html_escape_id: "set s \<inter> reserved_html = {} \<Longrightarrow> html_escape s = s"
  by (induction s) (auto simp: html_escape_def reserved_html_def)

text \<open>
  C4. The claim fails: the display name is not escaped. For the input path
  \<^verbatim>\<open>a<b.py\<close> the document of \<^verbatim>\<open>generate_html\<close> is not the one with the escaped name.
\<close>

theorem display_name_escaped_counterexample:
  "html_template ''a<b.py'' ''<pre></pre>'' \<noteq> specified_html_template ''a<b.py'' ''<pre></pre>''"
  by (simp add: html_template_document specified_html_template_def document_def
        basename_def rfind_def html_escape_def)

text \<open>
  C4, amended. The display name, the base name of the input path, is put into the title
  and into the file header as it is, without escaping, in both modules. The document is
  the one with the escaped name when the name has none of the reserved characters
  \<^verbatim>\<open>& < > " '\<close>.
\<close>

theorem display_name_verbatim:
  \<open>sublist (''<title>'' @ basename input_file @ '' - Python Code</title>'')
     (html_template input_file fragment) \<and>
   sublist (''<div class="file-header">'' @ basename input_file @ ''</div>'')
     (html_template input_file fragment) \<and>
   sublist (''<title>'' @ basename input_file @ '' - Python Code</title>'')
     (gui_html_template input_file fragment) \<and>
   sublist (''<div class="file-header">'' @ basename input_file @ ''</div>'')
     (gui_html_template input_file fragment) \<and>
   (set (basename input_file) \<inter> reserved_html = {} \<longrightarrow>
      html_template input_file fragment = specified_html_template input_file fragment)\<close>
  unfolding html_template_document gui_html_template_document specified_html_template_def
  using document_title document_header by (simp add: html_escape_id)

theorem display_name_verbatim_witness:
  \<open>set (basename ''foo/bar.py'') \<inter> reserved_html = {} \<and>
   html_template ''foo/bar.py'' ''<pre></pre>'' =
     specified_html_template ''foo/bar.py'' ''<pre></pre>'' \<and>
   sublist (''<title>'' @ basename ''a<b.py'' @ '' - Python Code</title>'')
     (html_template ''a<b.py'' ''<pre></pre>'')\<close>
proof -
  have "set (basename ''foo/bar.py'') \<inter> reserved_html = {}"
    by (simp add: example_basename reserved_html_def)
  with display_name_verbatim [of "''foo/bar.py''" "''<pre></pre>''"]
    display_name_verbatim [of "''a<b.py''" "''<pre></pre>''"]
  show ?thesis by blast
qed

















lemma endswith_suffix: "endswith s suf \<longleftrightarrow> suffix suf s"
proof
  assume "endswith s suf"
  then have "s = take (length s - length suf) s @ suf"
    by (metis append_take_drop_id endswith_def)
  then show "suffix suf s" by (metis suffixI)
next
  assume "suffix suf s"
  then obtain zs where "s = zs @ suf" by (auto simp: suffix_def)
  then show "endswith s suf" by (simp add: endswith_def)
qed

text \<open>
  C8. A drop whose first file does not end in \<^verbatim>\<open>.py\<close> converts nothing: the file system
  and the launched programs are as before, the warning box is shown, and the window is
  idle again, with the drop zone in its normal style and the status line as it was.
\<close>

theorem wrong_extension_rejected:
  assumes "\<not> suffix ''.py'' file_path"
  shows "dropEvent rt dk w (file_path # rest) =
           w\<lparr>drag_over := False, title_label := ''Drag & drop .py file here'',
             dialogs := dialogs w @
               [Warning ''Error'' ''Please select a file with .py extension'']\<rparr> \<and>
         disk (dropEvent rt dk w (file_path # rest)) = disk w \<and>
         launches (dropEvent rt dk w (file_path # rest)) = launches w \<and>
         status_label (dropEvent rt dk w (file_path # rest)) = status_label w"
  using assms by (simp add: dropEvent_def reset_style_def endswith_suffix)

theorem wrong_extension_rejected_witness:
  "\<not> suffix ''.py'' ''notes.txt'' \<and>
   dropEvent example_runtime example_desktop example_window [''notes.txt''] =
     example_window\<lparr>dialogs := [Warning ''Error'' ''Please select a file with .py extension'']\<rparr> \<and>
   disk (dropEvent example_runtime example_desktop example_window [''notes.txt'']) = example_files"
proof -
  have n: "\<not> suffix ''.py'' ''notes.txt''"
    by (simp add: endswith_suffix [symmetric] endswith_def)
  from wrong_extension_rejected [OF n, of example_runtime example_desktop example_window "[]"] n
  show ?thesis by (simp add: example_window_def)
qed

text \<open>
  C9. The claim fails: the function that renders, \<^verbatim>\<open>generate_html\<close>, returns the path
  of the file it wrote, which is not the HTML text, and it creates that file.
\<close>

theorem renderer_pure_counterexample:
  "generate_html example_runtime example_files ''bar.py'' None =
     Inr (''bar.html'',
          example_files(''bar.html'' \<mapsto>
            RegularFile (html_template ''bar.py'' ''<pre>x = 1</pre>''))) \<and>
   ''bar.html'' \<noteq> html_template ''bar.py'' ''<pre>x = 1</pre>'' \<and>
   example_files ''bar.html'' = None \<and>
   gui_generate_html example_runtime example_files ''bar.py'' =
     Inr (''bar.html'',
          example_files(''bar.html'' \<mapsto>
            RegularFile (gui_html_template ''bar.py'' ''<pre>x = 1</pre>''))) \<and>
   ''bar.html'' \<noteq> gui_html_template ''bar.py'' ''<pre>x = 1</pre>''"
proof -
  have "''bar.html'' \<noteq> html_template ''bar.py'' ''<pre>x = 1</pre>''"
    by (simp add: html_template_def)
  moreover have "''bar.html'' \<noteq> gui_html_template ''bar.py'' ''<pre>x = 1</pre>''"
    by (simp add: gui_html_template_def)
  moreover have "example_files ''bar.html'' = None"
    by (simp add: example_files_def)
  ultimately show ?thesis
    using example_run_bar gui_example_run_bar by simp
qed

text \<open>
  C9, amended. \<^verbatim>\<open>generate_html\<close>, in both modules, takes the path of the input file,
  reads it, and on success writes the document to the output path and returns that path.
  Its only change to the file system is that file, and the document is the value of the
  rendering statements, a function of the text read and of the input path that touches
  no file.
\<close>

theorem generate_html_effect:
  "(generate_html rt fs input_file output_file = Inr (out, fs') \<longrightarrow>
      (\<exists>code doc. open_read rt fs input_file = Inr code \<and>
                  render_html rt input_file code = Inr doc \<and>
                  fs' = fs(out \<mapsto> RegularFile doc))) \<and>
   (gui_generate_html rt fs input_file = Inr (gout, gfs') \<longrightarrow>
      (\<exists>code doc. open_read rt fs input_file = Inr code \<and>
                  gui_render_html rt input_file code = Inr doc \<and>
                  gfs' = fs(gout \<mapsto> RegularFile doc)))"
  by (auto simp: generate_html_Inr gui_generate_html_Inr open_write_Inr render_html_def
        gui_render_html_def)

theorem generate_html_effect_witness:
  "open_read example_runtime example_files ''foo/bar.py'' = Inr ''x = 1'' \<and>
   render_html example_runtime ''foo/bar.py'' ''x = 1'' =
     Inr (html_template ''foo/bar.py'' ''<pre>x = 1</pre>'') \<and>
   gui_render_html example_runtime ''foo/bar.py'' ''x = 1'' =
     Inr (gui_html_template ''foo/bar.py'' ''<pre>x = 1</pre>'')"
  using generate_html_effect [of example_runtime example_files "''foo/bar.py''" None
      "''foo/bar.html''" _ "''foo/bar.html''", unfolded example_run gui_example_run]
  by (auto simp: example_read dest: map_upd_eqD1)

text \<open>
  C10. A file that is already at the output path is overwritten without a prompt or an
  error: when the input can be read and decoded, the highlighter returns and the output
  path, derived or given, can be opened for writing, \<^verbatim>\<open>generate_html\<close> succeeds whatever
  the file held, and afterwards the file holds exactly the rendered document; nothing
  else in the file system changes.
\<close>

theorem existing_output_overwritten:
  assumes "fs input_file = Some (RegularFile bytes)"
    and "read_error rt input_file = None"
    and "decode_utf8 rt bytes = Inr code"
    and "highlight rt code = Inr fragment"
    and "(case output_file of
            None \<Rightarrow> map_sum id str_path (with_suffix rt (Path input_file) ''.html'')
          | Some given \<Rightarrow> Inr given) = Inr out"
    and "fs out = Some (RegularFile old)"
    and "write_error rt out = None"
  shows "generate_html rt fs input_file output_file =
           Inr (out, fs(out \<mapsto> RegularFile (html_template input_file fragment))) \<and>
         (fs(out \<mapsto> RegularFile (html_template input_file fragment))) out =
           Some (RegularFile (html_template input_file fragment)) \<and>
         (output_file = None \<longrightarrow>
            gui_generate_html rt fs input_file =
              Inr (out, fs(out \<mapsto> RegularFile (gui_html_template input_file fragment))))"
proof (intro conjI impI)
  from assms have r: "open_read rt fs input_file = Inr code"
    by (simp add: open_read_Inr)
  from assms have w: "\<And>text. open_write rt fs out text = Inr (fs(out \<mapsto> RegularFile text))"
    by (simp add: open_write_Inr)
  from r w assms(4,5) show "generate_html rt fs input_file output_file =
      Inr (out, fs(out \<mapsto> RegularFile (html_template input_file fragment)))"
    unfolding generate_html_Inr by blast
  show "(fs(out \<mapsto> RegularFile (html_template input_file fragment))) out =
      Some (RegularFile (html_template input_file fragment))"
    by simp
  assume "output_file = None"
  with r w assms(4,5) show "gui_generate_html rt fs input_file =
      Inr (out, fs(out \<mapsto> RegularFile (gui_html_template input_file fragment)))"
    unfolding gui_generate_html_Inr by auto
qed

theorem existing_output_overwritten_witness:
  "example_files ''foo/bar.html'' = Some (RegularFile ''stale'') \<and>
   generate_html example_runtime example_files ''foo/bar.py'' None =
     Inr (''foo/bar.html'',
          example_files(''foo/bar.html'' \<mapsto>
            RegularFile (html_template ''foo/bar.py'' ''<pre>x = 1</pre>''))) \<and>
   gui_generate_html example_runtime example_files ''foo/bar.py'' =
     Inr (''foo/bar.html'',
          example_files(''foo/bar.html'' \<mapsto>
            RegularFile (gui_html_template ''foo/bar.py'' ''<pre>x = 1</pre>'')))"
proof -
  have a: "example_files ''foo/bar.py'' = Some (RegularFile ''x = 1'')"
    and b: "read_error example_runtime ''foo/bar.py'' = None"
    and c: "decode_utf8 example_runtime ''x = 1'' = Inr ''x = 1''"
    and d: "highlight example_runtime ''x = 1'' = Inr ''<pre>x = 1</pre>''"
    and f: "example_files ''foo/bar.html'' = Some (RegularFile ''stale'')"
    and g: "write_error example_runtime ''foo/bar.html'' = None"
    by (simp_all add: example_files_def example_runtime_def)
  have e: "(case None of
              None \<Rightarrow> map_sum id str_path
                        (with_suffix example_runtime (Path ''foo/bar.py'') ''.html'')
            | Some given \<Rightarrow> Inr given) = Inr ''foo/bar.html''"
    by (simp add: example_derived)
  from existing_output_overwritten [OF a b c d e f g] f show ?thesis
    by simp
qed

section \<open>The two stylesheets\<close>

lemma dtc_other: "c \<noteq> CHR '' '' \<Longrightarrow> drop_trailing_comments (c # cs) = c # drop_trailing_comments cs"
  by simp

lemma dtc_space:
  "d \<noteq> CHR ''/'' \<Longrightarrow>
     drop_trailing_comments (CHR '' '' # d # ds) = CHR '' '' # drop_trailing_comments (d # ds)"
  by simp

lemma dtc_slash:
  "e \<noteq> CHR ''*'' \<Longrightarrow>
     drop_trailing_comments (CHR '' '' # CHR ''/'' # e # es) =
       CHR '' '' # CHR ''/'' # drop_trailing_comments (e # es)"
  by simp

lemma dtc_comment:
  "drop_trailing_comments (CHR '' '' # CHR ''/'' # CHR ''*'' # es) =
     drop_trailing_comments (dropWhile (\<lambda>x. x \<noteq> CHR 0x0A) es)"
  by simp

lemma dtc_skip:
  "c \<noteq> CHR 0x0A \<Longrightarrow>
     drop_trailing_comments (dropWhile (\<lambda>x. x \<noteq> CHR 0x0A) (c # cs)) =
       drop_trailing_comments (dropWhile (\<lambda>x. x \<noteq> CHR 0x0A) cs)"
  by simp

lemma dtc_newline:
  "drop_trailing_comments (dropWhile (\<lambda>x. x \<noteq> CHR 0x0A) (CHR 0x0A # cs)) =
     CHR 0x0A # drop_trailing_comments cs"
  by simp

lemma document_css_inject:
  "document css1 display_name fragment = document css2 display_name fragment \<Longrightarrow> css1 = css2"
  by (simp add: document_def)

lemma stylesheets_differ: "MONOKAI_CSS \<noteq> gui_MONOKAI_CSS"
  unfolding MONOKAI_CSS_def gui_MONOKAI_CSS_def by simp

text \<open>
  C5. The claim fails: the two \<^verbatim>\<open>MONOKAI_CSS\<close> strings differ.
\<close>

theorem stylesheets_identical_counterexample: "MONOKAI_CSS \<noteq> gui_MONOKAI_CSS"
  by (rule stylesheets_differ)

text \<open>
  C5, amended. The \<^verbatim>\<open>MONOKAI_CSS\<close> of gui_highlighter.py is the \<^verbatim>\<open>MONOKAI_CSS\<close> of
  highlight.py with the trailing comment of every rule dropped, so the two hold the same
  rules and are not the same string. Both modules build the document with the same
  template around their own stylesheet, and for the same file and fragment the two
  documents differ, in the embedded stylesheet only.
\<close>

theorem stylesheets_equal_up_to_comments:
  "drop_trailing_comments MONOKAI_CSS = gui_MONOKAI_CSS \<and>
   html_template input_file fragment =
     document MONOKAI_CSS (basename input_file) fragment \<and>
   gui_html_template input_file fragment =
     document gui_MONOKAI_CSS (basename input_file) fragment \<and>
   html_template input_file fragment \<noteq> gui_html_template input_file fragment"
proof -
  have stripped: "drop_trailing_comments MONOKAI_CSS = gui_MONOKAI_CSS"
    unfolding MONOKAI_CSS_def gui_MONOKAI_CSS_def
    by (simp only: dtc_other dtc_space dtc_slash dtc_comment dtc_skip dtc_newline
          drop_trailing_comments.simps(1) char.inject simp_thms)
  have "html_template input_file fragment \<noteq> gui_html_template input_file fragment"
    unfolding html_template_document gui_html_template_document
    using document_css_inject stylesheets_differ by blast
  with stripped show ?thesis
    by (simp add: html_template_document gui_html_template_document)
qed

end
